theory Spec2Isabelle
  imports Main
begin

section \<open>JavaScript values\<close>

text \<open>
  The Lambda handlers take \<open>event: any\<close> and the payloads are \<open>any\<close>: a value is
  what \<open>JSON.parse\<close> can produce, plus \<open>undefined\<close> (the result of reading a
  property that is not there).

  \<^item> A number is an integer: the rendering of a number to text (\<open>show_int\<close>) is the
    decimal numeral, as JavaScript prints an integer-valued number below \<open>10^21\<close>.
    Fractions and exponents are outside the model.
  \<^item> An object is the list of its own enumerable properties, in the order in which
    \<open>for ... in\<close> and the spread operator enumerate them. An object has one value
    per key; where that matters a theorem assumes the keys distinct.
  \<^item> A property read sees own properties, and \<open>length\<close> of strings and arrays.
    Properties inherited from the built-in prototypes (\<open>constructor\<close>,
    \<open>toString\<close>, ...) are not modelled: reading one of those names gives
    \<open>Undefined\<close> here.
\<close>

datatype js_error =
    TypeError
  | Error string

datatype jsvalue =
    Undefined
  | Null
  | Bool bool
  | Num int
  | Str string
  | Arr "jsvalue list"
  | Obj "(string \<times> jsvalue) list"

definition digit :: "nat \<Rightarrow> char" where
  "digit d = char_of (48 + d)"

function show_nat :: "nat \<Rightarrow> string" where
  "show_nat n = (if n < 10 then [digit n] else show_nat (n div 10) @ [digit (n mod 10)])"
  by pat_completeness auto
termination
  by (relation "measure id") auto

declare show_nat.simps [simp del]

definition show_int :: "int \<Rightarrow> string" where
  "show_int i = (if i < 0 then ''-'' @ show_nat (nat (- i)) else show_nat (nat i))"

definition nullish :: "jsvalue \<Rightarrow> bool" where
  "nullish v = (v = Undefined \<or> v = Null)"

text \<open>\<open>typeof v === 'object' && v !== null\<close>\<close>

fun is_object :: "jsvalue \<Rightarrow> bool" where
  "is_object (Obj kvs) = True"
| "is_object (Arr xs) = True"
| "is_object v = False"

text \<open>
  The own enumerable properties: the fields of an object, the indices of an array, the
  indices of a string (each a one-character string). Numbers, booleans, \<open>null\<close> and
  \<open>undefined\<close> have none.
\<close>

fun own_props :: "jsvalue \<Rightarrow> (string \<times> jsvalue) list" where
  "own_props (Obj kvs) = kvs"
| "own_props (Arr xs) = zip (map show_nat [0..<length xs]) xs"
| "own_props (Str s) = zip (map show_nat [0..<length s]) (map (\<lambda>c. Str [c]) s)"
| "own_props v = []"

fun js_length :: "jsvalue \<Rightarrow> jsvalue" where
  "js_length (Arr xs) = Num (int (length xs))"
| "js_length (Str s) = Num (int (length s))"
| "js_length v = Undefined"

text \<open>\<open>obj[key]\<close> on a value that is neither \<open>null\<close> nor \<open>undefined\<close>.\<close>

definition getProp :: "jsvalue \<Rightarrow> string \<Rightarrow> jsvalue" where
  "getProp obj key =
     (case map_of (own_props obj) key of
        Some v \<Rightarrow> v
      | None \<Rightarrow> if key = ''length'' then js_length obj else Undefined)"

text \<open>\<open>obj.key\<close>: a TypeError on \<open>null\<close> and \<open>undefined\<close>.\<close>

definition member :: "jsvalue \<Rightarrow> string \<Rightarrow> js_error + jsvalue" where
  "member obj key = (if nullish obj then Inl TypeError else Inr (getProp obj key))"

text \<open>\<open>obj?.[key]\<close>\<close>

definition opt_member :: "jsvalue \<Rightarrow> string \<Rightarrow> jsvalue" where
  "opt_member obj key = (if nullish obj then Undefined else getProp obj key)"

text \<open>
  An object literal \<open>{...obj, key: v}\<close> after the spread: an existing key keeps its
  place and takes the new value, a new key goes last.
\<close>

fun set_prop :: "string \<Rightarrow> jsvalue \<Rightarrow> (string \<times> jsvalue) list \<Rightarrow> (string \<times> jsvalue) list" where
  "set_prop key v [] = [(key, v)]"
| "set_prop key v (p # ps) = (if fst p = key then (key, v) # ps else p # set_prop key v ps)"

fun join_strs :: "string \<Rightarrow> string list \<Rightarrow> string" where
  "join_strs sep [] = []"
| "join_strs sep [x] = x"
| "join_strs sep (x # y # ys) = x @ sep @ join_strs sep (y # ys)"

fun sequence_err :: "('e + 'a) list \<Rightarrow> 'e + 'a list" where
  "sequence_err [] = Inr []"
| "sequence_err (x # xs) =
     (case x of
        Inl e \<Rightarrow> Inl e
      | Inr y \<Rightarrow> (case sequence_err xs of Inl e \<Rightarrow> Inl e | Inr ys \<Rightarrow> Inr (y # ys)))"

text \<open>
  The conversion of a value to a string. A plain object prints as
  \<open>[object Object]\<close> through the inherited \<open>toString\<close>; an own property
  \<open>toString\<close> (never callable in parsed JSON) hides it and the conversion throws. An
  array prints as its \<open>join(',')\<close>, where \<open>null\<close> and \<open>undefined\<close> elements are
  empty.
\<close>

fun js_to_string :: "jsvalue \<Rightarrow> js_error + string" where
  "js_to_string Undefined = Inr ''undefined''"
| "js_to_string Null = Inr ''null''"
| "js_to_string (Bool b) = Inr (if b then ''true'' else ''false'')"
| "js_to_string (Num n) = Inr (show_int n)"
| "js_to_string (Str s) = Inr s"
| "js_to_string (Arr xs) =
     (case sequence_err (map (\<lambda>x. if nullish x then Inr [] else js_to_string x) xs) of
        Inl e \<Rightarrow> Inl e
      | Inr strs \<Rightarrow> Inr (join_strs '','' strs))"
| "js_to_string (Obj kvs) =
     (if ''toString'' \<in> fst ` set kvs then Inl TypeError else Inr ''[object Object]'')"

text \<open>\<open>Array.prototype.join\<close> on an array of values.\<close>

definition array_join :: "string \<Rightarrow> jsvalue list \<Rightarrow> js_error + string" where
  "array_join sep xs =
     (case sequence_err (map (\<lambda>x. if nullish x then Inr [] else js_to_string x) xs) of
        Inl e \<Rightarrow> Inl e
      | Inr strs \<Rightarrow> Inr (join_strs sep strs))"

text \<open>\<open>String.prototype.split\<close> with a one-character separator.\<close>

fun split_on :: "char \<Rightarrow> string \<Rightarrow> string list" where
  "split_on c [] = [[]]"
| "split_on c (x # xs) =
     (if x = c then [] # split_on c xs
      else (case split_on c xs of
              [] \<Rightarrow> [[x]]
            | w # ws \<Rightarrow> (x # w) # ws))"

section \<open>prepareDataToFiles: the flattening to CSV\<close>

record CloudflareData =
  orgId :: string
  connectorParams :: jsvalue
  radarData :: jsvalue
  timestamp :: string

text \<open>\<open>allKeys.add(k)\<close> on a \<open>Set<string>\<close>, kept in insertion order.\<close>

definition set_add :: "string \<Rightarrow> string list \<Rightarrow> string list" where
  "set_add k ks = (if k \<in> set ks then ks else ks @ [k])"

lemma own_props_size:
  assumes "(k, v) \<in> set (own_props obj)" and "is_object v \<or> is_object obj"
  shows "size v < size obj"
proof (cases obj)
  case (Arr xs)
  with assms(1) have "v \<in> set xs"
    by (auto dest: set_zip_rightD)
  then show ?thesis
    using Arr by (simp add: size_list_estimation' less_Suc_eq_le)
next
  case (Obj kvs)
  with assms(1) have "(k, v) \<in> set kvs"
    by simp
  then have "size_prod (\<lambda>_. 0) size (k, v) \<le> size_list (size_prod (\<lambda>_. 0) size) kvs"
    by (rule size_list_estimation') simp
  then show ?thesis
    using Obj by simp
next
  case (Str s)
  with assms show ?thesis
    by (auto dest!: set_zip_rightD)
qed (use assms in auto)

lemma getProp_size:
  assumes "key \<in> fst ` set (own_props obj)" and "is_object (getProp obj key)"
  shows "size (getProp obj key) < size obj"
proof -
  from assms(1) obtain v where "map_of (own_props obj) key = Some v"
    by (cases "map_of (own_props obj) key") (auto simp: map_of_eq_None_iff)
  then have "getProp obj key = v" and "(key, v) \<in> set (own_props obj)"
    by (simp_all add: getProp_def map_of_SomeD)
  with assms(2) show ?thesis
    by (auto dest: own_props_size)
qed

text \<open>
  \<^verbatim>\<open>
  const flattenObject = (obj: any, prefix = '') => {
      for (const key in obj) {
          if (typeof obj[key] === 'object' && obj[key] !== null) {
              flattenObject(obj[key], prefix ? `${prefix}.${key}` : key);
          } else {
              allKeys.add(prefix ? `${prefix}.${key}` : key);
          }
      }
  };
  \<close>
  The set \<open>allKeys\<close> that the closure updates is passed in and returned.
\<close>

function flattenObject :: "jsvalue \<Rightarrow> string \<Rightarrow> string list \<Rightarrow> string list" where
  "flattenObject obj prefix allKeys =
     fold (\<lambda>key ks.
             if is_object (getProp obj key)
             then flattenObject (getProp obj key)
                    (if prefix \<noteq> [] then prefix @ ''.'' @ key else key) ks
             else set_add (if prefix \<noteq> [] then prefix @ ''.'' @ key else key) ks)
          (map fst (own_props obj)) allKeys"
  by pat_completeness auto
termination
  by (relation "measure (\<lambda>(obj, prefix, ks). size obj)") (auto intro: getProp_size)

declare flattenObject.simps [simp del]

text \<open>
  \<^verbatim>\<open>
  const getValue = (obj: any, path: string) => {
      return path.split('.').reduce((acc, part) => acc?.[part], obj) ?? '';
  };
  \<close>
\<close>

definition getValue :: "jsvalue \<Rightarrow> string \<Rightarrow> jsvalue" where
  "getValue obj path =
     (let v = foldl opt_member obj (split_on (CHR ''.'') path)
      in if nullish v then Str [] else v)"

text \<open>\<open>const headers = Array.from(allKeys)\<close>, after \<open>flattenObject(data.radarData)\<close>.\<close>

definition headers :: "CloudflareData \<Rightarrow> string list" where
  "headers d = flattenObject (radarData d) [] []"

text \<open>\<open>const row = headers.map(header => getValue(data.radarData, header))\<close>\<close>

definition row :: "CloudflareData \<Rightarrow> jsvalue list" where
  "row d = map (\<lambda>header. getValue (radarData d) header) (headers d)"

text \<open>The two elements of \<open>csvContent\<close>: \<open>headers.join(',')\<close> and \<open>row.join(',')\<close>.\<close>

definition header_line :: "CloudflareData \<Rightarrow> string" where
  "header_line d = join_strs '','' (headers d)"

definition data_line :: "CloudflareData \<Rightarrow> js_error + string" where
  "data_line d = array_join '','' (row d)"

text \<open>\<open>[headers.join(','), row.join(',')].join('\n')\<close>\<close>

definition convertToCSV :: "CloudflareData \<Rightarrow> js_error + string" where
  "convertToCSV d =
     (case data_line d of
        Inl e \<Rightarrow> Inl e
      | Inr r \<Rightarrow> Inr (join_strs [CHR 0x0A] [header_line d, r]))"

section \<open>prepareDataToFiles: the handler\<close>

text \<open>
  \<open>LambdaResponse\<close> is \<open>{statusCode: number; body: any}\<close>. A handler's body is either
  the value it computed or, from its \<open>catch\<close> branch, the object
  \<open>{error, message, timestamp}\<close>; \<open>message\<close> is the message of the caught error and
  is kept as the error itself (the text of a TypeError is the engine's). The entries of
  \<open>BatchResults\<close> have the same two fields, with \<open>body: CloudflareData\<close>.
\<close>

record 'b LambdaResponse =
  statusCode :: int
  body :: 'b

datatype response_body =
    Success jsvalue
  | Failure string js_error string

record BatchResults =
  batchResults :: "CloudflareData LambdaResponse list"

text \<open>A \<open>Date\<close>, as far as the handlers read it.\<close>

record Date =
  getTime :: int
  toISOString :: string

text \<open>
  The body of an upload is \<open>JSON.stringify(data)\<close> or the CSV text; the serialisation
  itself is not modelled, the value records what was serialised.
\<close>

datatype s3_body =
    JSON_stringify CloudflareData
  | Text string

record PutObjectCommand =
  Bucket :: string
  Key :: string
  Body :: s3_body
  ContentType :: string

text \<open>
  The loop of the handler over \<open>results.entries()\<close>. The object store is outside the
  program: \<open>s3_send\<close> says, from the uploads that went through so far and the next
  command, whether \<open>s3Client.send\<close> throws. The state is the list of the uploads that
  went through.
  \<^verbatim>\<open>
  for (const [index, result] of results.entries()) {
      if (result.statusCode !== 200) {
          throw new Error(`Invalid status code ${result.statusCode} for record ${index + 1}`);
      }
      const data = result.body;
      console.log(`[Record Details]`, { ..., exchangeId: data.connectorParams.exchange_id, ... });
      const jsonKey = `${data.orgId}/${timestamp}/data.json`;
      await s3Client.send(new PutObjectCommand({ Bucket: BUCKET_NAME, Key: jsonKey,
          Body: JSON.stringify(data), ContentType: 'application/json' }));
      const csvKey = `${data.orgId}/${timestamp}/data.csv`;
      const csvData = convertToCSV(data);
      await s3Client.send(new PutObjectCommand({ Bucket: BUCKET_NAME, Key: csvKey,
          Body: csvData, ContentType: 'text/csv' }));
      processedCount++;
  }
  \<close>
\<close>

fun process_results ::
  "(PutObjectCommand list \<Rightarrow> PutObjectCommand \<Rightarrow> js_error option) \<Rightarrow> string \<Rightarrow> string \<Rightarrow>
   nat \<Rightarrow> nat \<Rightarrow> CloudflareData LambdaResponse list \<Rightarrow> PutObjectCommand list \<Rightarrow>
   (js_error + nat) \<times> PutObjectCommand list" where
  "process_results s3_send BUCKET_NAME ts index processedCount [] sent =
     (Inr processedCount, sent)"
| "process_results s3_send BUCKET_NAME ts index processedCount (result # results) sent =
     (if statusCode result \<noteq> 200
      then (Inl (Error (''Invalid status code '' @ show_int (statusCode result) @
                        '' for record '' @ show_nat (index + 1))), sent)
      else
        (let data = body result in
         (case member (connectorParams data) ''exchange_id'' of
            Inl e \<Rightarrow> (Inl e, sent)
          | Inr exchangeId \<Rightarrow>
              (let jsonCmd = \<lparr>Bucket = BUCKET_NAME, Key = orgId data @ ''/'' @ ts @ ''/data.json'',
                              Body = JSON_stringify data, ContentType = ''application/json''\<rparr> in
               (case s3_send sent jsonCmd of
                  Some e \<Rightarrow> (Inl e, sent)
                | None \<Rightarrow>
                    (case convertToCSV data of
                       Inl e \<Rightarrow> (Inl e, sent @ [jsonCmd])
                     | Inr csvData \<Rightarrow>
                         (let csvCmd = \<lparr>Bucket = BUCKET_NAME, Key = orgId data @ ''/'' @ ts @ ''/data.csv'',
                                         Body = Text csvData, ContentType = ''text/csv''\<rparr> in
                          (case s3_send (sent @ [jsonCmd]) csvCmd of
                             Some e \<Rightarrow> (Inl e, sent @ [jsonCmd])
                           | None \<Rightarrow>
                               process_results s3_send BUCKET_NAME ts (index + 1) (processedCount + 1)
                                 results (sent @ [jsonCmd, csvCmd])))))))))"

text \<open>
  The handler: \<open>startTime\<close> is the clock at entry (\<open>timestamp = startTime.toISOString()\<close>),
  \<open>later\<close> the clock read at the end, \<open>endTime\<close> or \<open>errorTime\<close>. It returns the
  response and the uploads that went through.
\<close>

definition prepareDataToFiles ::
  "(PutObjectCommand list \<Rightarrow> PutObjectCommand \<Rightarrow> js_error option) \<Rightarrow> string \<Rightarrow> Date \<Rightarrow> Date \<Rightarrow>
   BatchResults \<Rightarrow> response_body LambdaResponse \<times> PutObjectCommand list" where
  "prepareDataToFiles s3_send BUCKET_NAME startTime later event =
     (case process_results s3_send BUCKET_NAME (toISOString startTime) 0 0 (batchResults event) [] of
        (Inr processedCount, sent) \<Rightarrow>
          (\<lparr>statusCode = 200,
            body = Success (Obj [(''message'', Str ''Data processing completed''),
                                 (''bucketName'', Str BUCKET_NAME),
                                 (''processedCount'', Num (int processedCount)),
                                 (''processingTimeMs'', Num (getTime later - getTime startTime)),
                                 (''startTime'', Str (toISOString startTime)),
                                 (''endTime'', Str (toISOString later))])\<rparr>, sent)
      | (Inl e, sent) \<Rightarrow>
          (\<lparr>statusCode = 500,
            body = Failure ''Failed to process data'' e (toISOString later)\<rparr>, sent))"

section \<open>providerEndpoint\<close>

text \<open>The simulated provider response, the \<open>body\<close> of the first stage.\<close>

definition provider_response :: jsvalue where
  "provider_response =
     Obj [(''providerId'', Str ''provider-1''),
          (''resourceType'', Str ''activity-center''),
          (''providerName'', Str ''Provider 1''),
          (''externalId'', Str ''schedule-activity-center-import-test''),
          (''secrets'', Str ''****************************''),
          (''connectorParams'',
             Obj [(''snowflake_schema'', Str ''XPRESSFEED''),
                  (''snowflake_warehouse'', Str ''XF_READER_DILIGENTCORP_WH''),
                  (''snowflake_account'', Str ''idb71831.us-east-1''),
                  (''snowflake_database'', Str ''MI_XPRESSCLOUD''),
                  (''key_development_list'', Str ''28,74,75,101,52,80,81,82,94,26,27'')]),
          (''orgs'',
             Arr [Obj [(''orgId'', Str ''155''),
                       (''connectorParams'',
                          Obj [(''exchange_id'', Str ''3''),
                               (''ticker_symbol'', Str ''AMZN''),
                               (''ticker_symbols'', Str ''MSFT-458, NFLX-458, GOOGL-458''),
                               (''key_development_list'', Str ''28,74,75,101,52,80,81,82,94,26,27'')])],
                  Obj [(''orgId'', Str ''148''),
                       (''connectorParams'',
                          Obj [(''exchange_id'', Str ''3''),
                               (''ticker_symbol'', Str ''MSFT''),
                               (''ticker_symbols'', Str ''AMZN-458, NFLX-458, GOOGL-458''),
                               (''key_development_list'', Str ''28,74,75,101,52,80,81,82,94,26,27'')])]])]"

definition providerEndpoint :: "response_body LambdaResponse" where
  "providerEndpoint = \<lparr>statusCode = 200, body = Success provider_response\<rparr>"

section \<open>decryptionHandler\<close>

text \<open>
  The \<open>try\<close> block. The log statement reads \<open>providerData.providerId\<close>,
  \<open>providerData.providerName\<close> and \<open>providerData.orgs.length\<close>, each of which throws
  on \<open>null\<close> and \<open>undefined\<close>; then
  \<^verbatim>\<open>
  const decryptedData = {
      ...providerData,
      secrets: "decrypted-secret-data"
  };
  \<close>
\<close>

definition decryptionHandler_try :: "jsvalue \<Rightarrow> js_error + jsvalue" where
  "decryptionHandler_try event =
     (case member event ''body'' of
        Inl e \<Rightarrow> Inl e
      | Inr providerData \<Rightarrow>
          (case member providerData ''providerId'' of
             Inl e \<Rightarrow> Inl e
           | Inr providerId \<Rightarrow>
               (case member providerData ''orgs'' of
                  Inl e \<Rightarrow> Inl e
                | Inr orgs \<Rightarrow>
                    (case member orgs ''length'' of
                       Inl e \<Rightarrow> Inl e
                     | Inr orgCount \<Rightarrow>
                         Inr (Obj (set_prop ''secrets'' (Str ''decrypted-secret-data'')
                                     (own_props providerData)))))))"

text \<open>The handler; \<open>now\<close> is \<open>new Date().toISOString()\<close> in the \<open>catch\<close> branch.\<close>

definition decryptionHandler :: "string \<Rightarrow> jsvalue \<Rightarrow> response_body LambdaResponse" where
  "decryptionHandler now event =
     (case decryptionHandler_try event of
        Inr decryptedData \<Rightarrow> \<lparr>statusCode = 200, body = Success decryptedData\<rparr>
      | Inl e \<Rightarrow> \<lparr>statusCode = 500, body = Failure ''Failed to decrypt data'' e now\<rparr>)"

section \<open>extractOrgs\<close>

text \<open>
  The callback of \<open>providerData.orgs.map\<close>:
  \<^verbatim>\<open>
  org => {
      console.log(`[EXTRACT ORGS] Processing org ${org.orgId}`);
      return { id: org.orgId, connectorParams: org.connectorParams };
  }
  \<close>
  The template literal converts \<open>org.orgId\<close> to a string.
\<close>

definition extract_org :: "jsvalue \<Rightarrow> js_error + jsvalue" where
  "extract_org org =
     (case member org ''orgId'' of
        Inl e \<Rightarrow> Inl e
      | Inr oid \<Rightarrow>
          (case js_to_string oid of
             Inl e \<Rightarrow> Inl e
           | Inr logged \<Rightarrow>
               Inr (Obj [(''id'', oid), (''connectorParams'', getProp org ''connectorParams'')])))"

text \<open>
  The \<open>try\<close> block: \<open>event.body\<close>, the log statement (\<open>providerData.providerId\<close>,
  \<open>providerData.orgs.length\<close>), then \<open>providerData.orgs.map(...)\<close>, which is a
  TypeError unless \<open>orgs\<close> is an array; the result is \<open>{ orgIds }\<close>.
\<close>

definition extractOrgs_try :: "jsvalue \<Rightarrow> js_error + jsvalue" where
  "extractOrgs_try event =
     (case member event ''body'' of
        Inl e \<Rightarrow> Inl e
      | Inr providerData \<Rightarrow>
          (case member providerData ''providerId'' of
             Inl e \<Rightarrow> Inl e
           | Inr providerId \<Rightarrow>
               (case member providerData ''orgs'' of
                  Inl e \<Rightarrow> Inl e
                | Inr orgs \<Rightarrow>
                    (case member orgs ''length'' of
                       Inl e \<Rightarrow> Inl e
                     | Inr totalOrgs \<Rightarrow>
                         (case orgs of
                            Arr xs \<Rightarrow>
                              (case sequence_err (map extract_org xs) of
                                 Inl e \<Rightarrow> Inl e
                               | Inr orgIds \<Rightarrow> Inr (Obj [(''orgIds'', Arr orgIds)]))
                          | _ \<Rightarrow> Inl TypeError)))))"

definition extractOrgs :: "string \<Rightarrow> jsvalue \<Rightarrow> response_body LambdaResponse" where
  "extractOrgs now event =
     (case extractOrgs_try event of
        Inr response \<Rightarrow> \<lparr>statusCode = 200, body = Success response\<rparr>
      | Inl e \<Rightarrow> \<lparr>statusCode = 500, body = Failure ''Failed to extract organization data'' e now\<rparr>)"

section \<open>cloudflareFetchHandler\<close>

text \<open>
  What the network does with the one request is outside the program: either the request
  emits \<open>error\<close> (with a message), or a response arrives with a status code (possibly
  missing) and the chunks of its body. A request that never settles is outside the model.
\<close>

datatype http_outcome =
    RequestError string
  | Responded "int option" "string list"

record CloudflareResponse =
  status :: int
  data :: jsvalue

text \<open>
  \<open>makeCloudflareRequest\<close>: the promise resolves with the parsed body and
  \<open>res.statusCode || 500\<close>, and rejects when \<open>JSON.parse\<close> throws or the request
  fails. \<open>JSON_parse\<close> is the parser, \<open>Inl\<close> the message of its SyntaxError.
\<close>

definition makeCloudflareRequest ::
  "(string \<Rightarrow> http_outcome) \<Rightarrow> (string \<Rightarrow> string + jsvalue) \<Rightarrow> string \<Rightarrow> js_error + CloudflareResponse" where
  "makeCloudflareRequest https_request JSON_parse path =
     (case https_request path of
        RequestError msg \<Rightarrow> Inl (Error (''Request failed: '' @ msg))
      | Responded res_statusCode chunks \<Rightarrow>
          (case JSON_parse (concat chunks) of
             Inl msg \<Rightarrow> Inl (Error (''Failed to parse response: '' @ msg))
           | Inr parsedData \<Rightarrow>
               Inr \<lparr>status = (case res_statusCode of
                                None \<Rightarrow> 500
                              | Some c \<Rightarrow> if c = 0 then 500 else c),
                     data = parsedData\<rparr>))"

text \<open>
  The \<open>try\<close> block: \<open>const { id, connectorParams } = event\<close> throws on \<open>null\<close> and
  \<open>undefined\<close>, the log statement reads \<open>connectorParams.exchange_id\<close>, then the
  request is made and the record built. \<open>radarResponse.status\<close> is logged only,
  with \<open>JSON.stringify(radarResponse.data).length\<close>: \<open>JSON.stringify\<close> of
  \<open>undefined\<close> is \<open>undefined\<close>, whose \<open>length\<close> is a TypeError (a parser
  never returns \<open>undefined\<close>; the model's parser is any function).
\<close>

definition cloudflareFetchHandler_try ::
  "(string \<Rightarrow> http_outcome) \<Rightarrow> (string \<Rightarrow> string + jsvalue) \<Rightarrow> string \<Rightarrow> jsvalue \<Rightarrow> js_error + jsvalue" where
  "cloudflareFetchHandler_try https_request JSON_parse now event =
     (case member event ''id'' of
        Inl e \<Rightarrow> Inl e
      | Inr id' \<Rightarrow>
          (let connectorParams = getProp event ''connectorParams'' in
           (case member connectorParams ''exchange_id'' of
              Inl e \<Rightarrow> Inl e
            | Inr exchangeId \<Rightarrow>
                (case makeCloudflareRequest https_request JSON_parse
                        ''/client/v4/radar/attacks/layer3/top/locations/target?dateRange=30d&format=json'' of
                   Inl e \<Rightarrow> Inl e
                 | Inr radarResponse \<Rightarrow>
                     if data radarResponse = Undefined then Inl TypeError
                     else Inr (Obj [(''orgId'', id'),
                                    (''connectorParams'', connectorParams),
                                    (''radarData'', data radarResponse),
                                    (''timestamp'', Str now)])))))"

definition cloudflareFetchHandler ::
  "(string \<Rightarrow> http_outcome) \<Rightarrow> (string \<Rightarrow> string + jsvalue) \<Rightarrow> string \<Rightarrow> jsvalue \<Rightarrow>
   response_body LambdaResponse" where
  "cloudflareFetchHandler https_request JSON_parse now event =
     (case cloudflareFetchHandler_try https_request JSON_parse now event of
        Inr cloudflareData \<Rightarrow> \<lparr>statusCode = 200, body = Success cloudflareData\<rparr>
      | Inl e \<Rightarrow> \<lparr>statusCode = 500, body = Failure ''Failed to fetch Cloudflare data'' e now\<rparr>)"

section \<open>The vocabulary of the properties\<close>

text \<open>
  The leaves of a payload: every value that is not an object or array, with the list of
  the keys that lead to it from the root.
\<close>

function leaves :: "jsvalue \<Rightarrow> (string list \<times> jsvalue) list" where
  "leaves v =
     (if is_object v
      then concat (map (\<lambda>kv. map (\<lambda>pl. (fst kv # fst pl, snd pl)) (leaves (snd kv))) (own_props v))
      else [([], v)])"
  by pat_completeness auto
termination
  by (relation "measure size") (auto intro: own_props_size)

declare leaves.simps [simp del]

text \<open>No array anywhere in the value.\<close>

fun array_free :: "jsvalue \<Rightarrow> bool" where
  "array_free (Arr xs) = False"
| "array_free (Obj kvs) = (\<forall>kv \<in> set kvs. array_free (snd kv))"
| "array_free v = True"

text \<open>
  Every object in the value has one value per key, and no key is empty or contains a dot
  or a comma.
\<close>

fun plain_keys :: "jsvalue \<Rightarrow> bool" where
  "plain_keys (Obj kvs) =
     (distinct (map fst kvs) \<and>
      (\<forall>kv \<in> set kvs. fst kv \<noteq> [] \<and> CHR ''.'' \<notin> set (fst kv) \<and> CHR '','' \<notin> set (fst kv) \<and>
                       plain_keys (snd kv)))"
| "plain_keys (Arr xs) = (\<forall>x \<in> set xs. plain_keys x)"
| "plain_keys v = True"

text \<open>
  The text of a leaf in the data line: empty for \<open>null\<close> and \<open>undefined\<close>, else
  the value converted to a string, with no quoting or escaping.
\<close>

definition leaf_text :: "jsvalue \<Rightarrow> string" where
  "leaf_text v = (if nullish v then [] else (case js_to_string v of Inr s \<Rightarrow> s | Inl e \<Rightarrow> []))"

text \<open>
  The header line and the data line have the same number of comma-separated fields, and
  every leaf stands in the data line at a position where the header line has the leaf's
  dot-joined path; the CSV text is the two lines with a newline between them.
\<close>

definition fields_agree :: "CloudflareData \<Rightarrow> bool" where
  "fields_agree d =
     (case data_line d of
        Inl e \<Rightarrow> False
      | Inr r \<Rightarrow>
          convertToCSV d = Inr (header_line d @ [CHR 0x0A] @ r) \<and>
          length (split_on (CHR '','') (header_line d)) = length (split_on (CHR '','') r) \<and>
          (\<forall>pv \<in> set (leaves (radarData d)).
             (join_strs ''.'' (fst pv), leaf_text (snd pv))
               \<in> set (zip (split_on (CHR '','') (header_line d)) (split_on (CHR '','') r))))"

text \<open>The column name that \<open>flattenObject\<close> builds for a path below \<open>prefix\<close>.\<close>

definition column :: "string \<Rightarrow> string list \<Rightarrow> string" where
  "column prefix p = (if prefix \<noteq> [] then prefix @ ''.'' @ join_strs ''.'' p else join_strs ''.'' p)"

text \<open>
  The two uploads for one record, with the timestamp \<open>ts\<close> in the keys: the record
  itself as JSON at \<open>{orgId}/{ts}/data.json\<close> and its CSV text at
  \<open>{orgId}/{ts}/data.csv\<close>.
\<close>

definition uploads_for :: "string \<Rightarrow> string \<Rightarrow> CloudflareData \<Rightarrow> PutObjectCommand list" where
  "uploads_for BUCKET_NAME ts d =
     [\<lparr>Bucket = BUCKET_NAME, Key = orgId d @ ''/'' @ ts @ ''/data.json'',
       Body = JSON_stringify d, ContentType = ''application/json''\<rparr>,
      \<lparr>Bucket = BUCKET_NAME, Key = orgId d @ ''/'' @ ts @ ''/data.csv'',
       Body = Text (case convertToCSV d of Inr csvData \<Rightarrow> csvData | Inl e \<Rightarrow> []),
       ContentType = ''text/csv''\<rparr>]"

text \<open>The \<open>ExtractedOrg\<close> of an element of \<open>orgs\<close>.\<close>

definition projected :: "jsvalue \<Rightarrow> jsvalue" where
  "projected org =
     Obj [(''id'', getProp org ''orgId''), (''connectorParams'', getProp org ''connectorParams'')]"

section \<open>Strings: split and join\<close>

lemma split_on_not_Nil: "split_on c s \<noteq> []"
  by (induction s) (auto split: list.splits)

lemma split_on_plain: "c \<notin> set x \<Longrightarrow> split_on c x = [x]"
  by (induction x) (auto split: list.splits)

lemma split_on_append: "c \<notin> set x \<Longrightarrow> split_on c (x @ c # rest) = x # split_on c rest"
  by (induction x) (auto split: list.splits simp: split_on_not_Nil)

lemma join_strs_Cons: "xs \<noteq> [] \<Longrightarrow> join_strs sep (x # xs) = x @ sep @ join_strs sep xs"
  by (cases xs) auto

lemma split_on_join:
  "xs \<noteq> [] \<Longrightarrow> \<forall>x \<in> set xs. c \<notin> set x \<Longrightarrow> split_on c (join_strs [c] xs) = xs"
proof (induction xs)
  case Nil
  then show ?case by simp
next
  case (Cons x xs)
  show ?case
  proof (cases "xs = []")
    case True
    with Cons.prems show ?thesis by (simp add: split_on_plain)
  next
    case False
    with Cons show ?thesis by (simp add: join_strs_Cons split_on_append)
  qed
qed

lemma set_join_strs: "set (join_strs sep xs) \<subseteq> set sep \<union> (\<Union>x \<in> set xs. set x)"
  by (induction sep xs rule: join_strs.induct) auto

section \<open>The leaves and the walk of flattenObject\<close>

lemma leaves_Obj:
  "leaves (Obj kvs) = concat (map (\<lambda>kv. map (\<lambda>pl. (fst kv # fst pl, snd pl)) (leaves (snd kv))) kvs)"
  by (simp add: leaves.simps)

lemma leaves_leaf: "\<not> is_object v \<Longrightarrow> leaves v = [([], v)]"
  by (simp add: leaves.simps)

lemma leaves_path_not_Nil: "is_object obj \<Longrightarrow> pv \<in> set (leaves obj) \<Longrightarrow> fst pv \<noteq> []"
  by (subst (asm) leaves.simps) auto

lemma getProp_Obj: "distinct (map fst kvs) \<Longrightarrow> (k, v) \<in> set kvs \<Longrightarrow> getProp (Obj kvs) k = v"
  by (simp add: getProp_def)

lemma leaves_not_object: "pv \<in> set (leaves obj) \<Longrightarrow> \<not> is_object (snd pv)"
proof (induction obj arbitrary: pv rule: leaves.induct)
  case (1 v)
  show ?case
  proof (cases "is_object v")
    case True
    with "1.prems" obtain kv pl where "kv \<in> set (own_props v)" "pl \<in> set (leaves (snd kv))" "snd pv = snd pl"
      by (subst (asm) leaves.simps) auto
    with "1.IH" True show ?thesis by auto
  next
    case False
    with "1.prems" show ?thesis by (simp add: leaves_leaf)
  qed
qed

lemma leaves_walk:
  "array_free obj \<Longrightarrow> plain_keys obj \<Longrightarrow> pv \<in> set (leaves obj) \<Longrightarrow> foldl opt_member obj (fst pv) = snd pv"
proof (induction obj arbitrary: pv rule: leaves.induct)
  case (1 v)
  show ?case
  proof (cases v)
    case (Obj kvs)
    with "1.prems"(3) obtain kv pl where kv: "kv \<in> set kvs" and pl: "pl \<in> set (leaves (snd kv))"
      and pv: "pv = (fst kv # fst pl, snd pl)"
      by (auto simp: leaves_Obj)
    from "1.prems"(1,2) Obj kv have "array_free (snd kv)" "plain_keys (snd kv)" "distinct (map fst kvs)"
      by auto
    with "1.IH"[of kv pl] Obj kv pl have "foldl opt_member (snd kv) (fst pl) = snd pl"
      by simp
    moreover have "opt_member v (fst kv) = snd kv"
      using Obj kv \<open>distinct (map fst kvs)\<close> getProp_Obj[of kvs "fst kv" "snd kv"]
      by (simp add: opt_member_def nullish_def)
    ultimately show ?thesis
      using pv by simp
  next
    case (Arr xs)
    with "1.prems" show ?thesis by simp
  qed (use "1.prems" in \<open>auto simp: leaves_leaf\<close>)
qed

lemma leaves_keys:
  "array_free obj \<Longrightarrow> plain_keys obj \<Longrightarrow> pv \<in> set (leaves obj) \<Longrightarrow>
   \<forall>k \<in> set (fst pv). k \<noteq> [] \<and> CHR ''.'' \<notin> set k \<and> CHR '','' \<notin> set k"
proof (induction obj arbitrary: pv rule: leaves.induct)
  case (1 v)
  show ?case
  proof (cases v)
    case (Obj kvs)
    with "1.prems"(3) obtain kv pl where kv: "kv \<in> set kvs" and pl: "pl \<in> set (leaves (snd kv))"
      and pv: "pv = (fst kv # fst pl, snd pl)"
      by (auto simp: leaves_Obj)
    from "1.prems"(1,2) Obj kv have "array_free (snd kv)" "plain_keys (snd kv)"
      and k: "fst kv \<noteq> [] \<and> CHR ''.'' \<notin> set (fst kv) \<and> CHR '','' \<notin> set (fst kv)"
      by auto
    with "1.IH"[of kv pl] Obj kv pl
    have "\<forall>k \<in> set (fst pl). k \<noteq> [] \<and> CHR ''.'' \<notin> set k \<and> CHR '','' \<notin> set k"
      by simp
    with k pv show ?thesis by simp
  next
    case (Arr xs)
    with "1.prems" show ?thesis by simp
  qed (use "1.prems" in \<open>auto simp: leaves_leaf\<close>)
qed

lemma fold_set_union:
  assumes "\<And>x ks. x \<in> set xs \<Longrightarrow> set (f x ks) = set ks \<union> G x"
  shows "set (fold f xs ks) = set ks \<union> (\<Union>x \<in> set xs. G x)"
  using assms by (induction xs arbitrary: ks) auto

lemma set_set_add: "set (set_add k ks) = set ks \<union> {k}"
  by (auto simp: set_add_def)

lemma column_Cons:
  assumes "k \<noteq> []" and "p \<noteq> []"
  shows "column (if prefix \<noteq> [] then prefix @ ''.'' @ k else k) p = column prefix (k # p)"
  using assms by (simp add: column_def join_strs_Cons)

lemma column_single: "column prefix [k] = (if prefix \<noteq> [] then prefix @ ''.'' @ k else k)"
  by (simp add: column_def)

lemma flattenObject_set:
  "array_free obj \<Longrightarrow> plain_keys obj \<Longrightarrow> is_object obj \<Longrightarrow>
   set (flattenObject obj prefix allKeys) = set allKeys \<union> (\<lambda>pv. column prefix (fst pv)) ` set (leaves obj)"
proof (induction obj prefix allKeys rule: flattenObject.induct)
  case (1 obj prefix allKeys)
  from "1.prems" obtain kvs where obj: "obj = Obj kvs"
    by (cases obj) auto
  from "1.prems" obj have dist: "distinct (map fst kvs)"
    by simp
  define G where "G key = (\<lambda>pl. column prefix (key # fst pl)) ` set (leaves (getProp obj key))" for key
  have step: "set (if is_object (getProp obj key)
                   then flattenObject (getProp obj key) (if prefix \<noteq> [] then prefix @ ''.'' @ key else key) ks
                   else set_add (if prefix \<noteq> [] then prefix @ ''.'' @ key else key) ks) = set ks \<union> G key"
    if key: "key \<in> set (map fst (own_props obj))" for key ks
  proof -
    from key obj obtain c where c: "(key, c) \<in> set kvs"
      by auto
    with dist obj have gp: "getProp obj key = c"
      by (simp add: getProp_Obj)
    from c "1.prems" obj have sub: "array_free c" "plain_keys c" and k: "key \<noteq> []"
      by auto
    show ?thesis
    proof (cases "is_object c")
      case True
      have "set (flattenObject c (if prefix \<noteq> [] then prefix @ ''.'' @ key else key) ks) =
            set ks \<union> (\<lambda>pv. column (if prefix \<noteq> [] then prefix @ ''.'' @ key else key) (fst pv)) ` set (leaves c)"
        using "1.IH"[OF key] gp True sub by simp
      moreover have "column (if prefix \<noteq> [] then prefix @ ''.'' @ key else key) (fst pv) = column prefix (key # fst pv)"
        if "pv \<in> set (leaves c)" for pv
        using that True k by (intro column_Cons) (auto dest: leaves_path_not_Nil)
      ultimately show ?thesis
        using True gp by (auto simp: G_def)
    next
      case False
      then show ?thesis
        using gp by (simp add: G_def leaves_leaf set_set_add column_single)
    qed
  qed
  have "set (flattenObject obj prefix allKeys) = set allKeys \<union> (\<Union>key \<in> set (map fst (own_props obj)). G key)"
    by (subst flattenObject.simps) (rule fold_set_union, rule step)
  also have "(\<Union>key \<in> set (map fst (own_props obj)). G key) = (\<lambda>pv. column prefix (fst pv)) ` set (leaves obj)"
  proof -
    have "G (fst kv) = (\<lambda>pl. column prefix (fst kv # fst pl)) ` set (leaves (snd kv))" if "kv \<in> set kvs" for kv
      using that dist obj getProp_Obj[of kvs "fst kv" "snd kv"] by (simp add: G_def)
    then have "(\<Union>kv \<in> set kvs. G (fst kv)) =
               (\<Union>kv \<in> set kvs. (\<lambda>pl. column prefix (fst kv # fst pl)) ` set (leaves (snd kv)))"
      by simp
    moreover have "(\<Union>key \<in> set (map fst (own_props obj)). G key) = (\<Union>kv \<in> set kvs. G (fst kv))"
      using obj by simp
    moreover have "(\<lambda>pv. column prefix (fst pv)) ` set (leaves obj) =
                   (\<Union>kv \<in> set kvs. (\<lambda>pl. column prefix (fst kv # fst pl)) ` set (leaves (snd kv)))"
      using obj by (simp add: leaves_Obj image_UN image_image)
    ultimately show ?thesis
      by simp
  qed
  finally show ?case .
qed

lemma headers_set:
  "array_free (radarData d) \<Longrightarrow> plain_keys (radarData d) \<Longrightarrow> is_object (radarData d) \<Longrightarrow>
   set (headers d) = (\<lambda>pv. join_strs ''.'' (fst pv)) ` set (leaves (radarData d))"
  by (simp add: headers_def flattenObject_set column_def)

lemma sequence_err_map_Inr:
  "\<forall>x \<in> set xs. f x = Inr (g x) \<Longrightarrow> sequence_err (map f xs) = Inr (map g xs)"
  by (induction xs) auto

lemma elem_text_leaf:
  "\<not> is_object x \<Longrightarrow> (if nullish x then Inr [] else js_to_string x) = Inr (leaf_text x)"
  by (cases x) (auto simp: leaf_text_def nullish_def)

lemma array_join_leaves:
  "\<forall>x \<in> set xs. \<not> is_object x \<Longrightarrow> array_join sep xs = Inr (join_strs sep (map leaf_text xs))"
  by (simp add: array_join_def sequence_err_map_Inr[where g = leaf_text] elem_text_leaf)

lemma getValue_leaf:
  assumes "array_free obj" and "plain_keys obj" and "is_object obj" and "pv \<in> set (leaves obj)"
  shows "getValue obj (join_strs ''.'' (fst pv)) = (if nullish (snd pv) then Str [] else snd pv)"
proof -
  from assms have "fst pv \<noteq> []"
    by (auto dest: leaves_path_not_Nil)
  moreover from assms have "\<forall>k \<in> set (fst pv). CHR ''.'' \<notin> set k"
    using leaves_keys[of obj pv] by simp
  ultimately have "split_on (CHR ''.'') (join_strs ''.'' (fst pv)) = fst pv"
    by (rule split_on_join)
  with assms show ?thesis
    by (simp add: getValue_def leaves_walk)
qed

lemma leaf_text_getValue:
  assumes "array_free obj" and "plain_keys obj" and "is_object obj" and "pv \<in> set (leaves obj)"
  shows "leaf_text (getValue obj (join_strs ''.'' (fst pv))) = leaf_text (snd pv)"
    and "\<not> is_object (getValue obj (join_strs ''.'' (fst pv)))"
  using assms leaves_not_object[of pv obj]
  by (auto simp: getValue_leaf leaf_text_def nullish_def)

lemma column_no_comma:
  assumes "array_free obj" and "plain_keys obj" and "pv \<in> set (leaves obj)"
  shows "CHR '','' \<notin> set (join_strs ''.'' (fst pv))"
proof
  assume "CHR '','' \<in> set (join_strs ''.'' (fst pv))"
  with set_join_strs[of "''.''" "fst pv"] have "\<exists>k \<in> set (fst pv). CHR '','' \<in> set k"
    by auto
  with leaves_keys[OF assms] show False
    by auto
qed

lemma convertToCSV_lines:
  "data_line d = Inr r \<Longrightarrow> convertToCSV d = Inr (header_line d @ [CHR 0x0A] @ r)"
  by (simp add: convertToCSV_def)

lemma zip_map_self: "set (zip xs (map f xs)) = (\<lambda>x. (x, f x)) ` set xs"
  by (induction xs) auto

section \<open>The handlers: lemmas\<close>

lemma getProp_nullish: "nullish v \<Longrightarrow> getProp v key = Undefined"
  by (auto simp: nullish_def getProp_def)

lemma extract_org_entity:
  "\<not> nullish org \<Longrightarrow> getProp org ''orgId'' = Str s \<Longrightarrow> extract_org org = Inr (projected org)"
  by (simp add: extract_org_def member_def projected_def)

lemma extractOrgs_try_entities:
  assumes "getProp (getProp event ''body'') ''orgs'' = Arr orgs"
    and "\<forall>org \<in> set orgs. \<not> nullish org \<and> (\<exists>s. getProp org ''orgId'' = Str s)"
  shows "extractOrgs_try event = Inr (Obj [(''orgIds'', Arr (map projected orgs))])"
proof -
  from assms(1) have "\<not> nullish (getProp event ''body'')"
    by (auto simp: getProp_nullish)
  then have "\<not> nullish event"
    by (auto simp: getProp_nullish nullish_def)
  moreover have "sequence_err (map extract_org orgs) = Inr (map projected orgs)"
    using assms(2) by (intro sequence_err_map_Inr) (auto simp: extract_org_entity)
  ultimately show ?thesis
    using assms(1) \<open>\<not> nullish (getProp event ''body'')\<close>
    by (simp add: extractOrgs_try_def member_def nullish_def)
qed

lemma map_of_set_prop:
  "map_of (set_prop key v kvs) k = (if k = key then Some v else map_of kvs k)"
  by (induction kvs) auto

lemma getProp_set_prop:
  "getProp (Obj (set_prop key v kvs)) k = (if k = key then v else getProp (Obj kvs) k)"
  by (simp add: getProp_def map_of_set_prop split: option.splits)

lemma decryptionHandler_try_Obj:
  assumes "getProp event ''body'' = Obj props" and "\<not> nullish (getProp (Obj props) ''orgs'')"
  shows "decryptionHandler_try event = Inr (Obj (set_prop ''secrets'' (Str ''decrypted-secret-data'') props))"
proof -
  from assms(1) have "\<not> nullish event"
    by (auto simp: getProp_nullish)
  with assms show ?thesis
    by (simp add: decryptionHandler_try_def member_def nullish_def)
qed

lemma set_prop_set_prop: "set_prop key v (set_prop key w kvs) = set_prop key v kvs"
  by (induction kvs) auto

lemma process_results_success:
  "process_results s3_send B ts index n results sent = (Inr m, sent') \<Longrightarrow>
   sent' = sent @ concat (map (\<lambda>r. uploads_for B ts (body r)) results) \<and>
   m = n + length results \<and>
   (\<forall>r \<in> set results. statusCode r = 200 \<and> (\<exists>csv. convertToCSV (body r) = Inr csv))"
proof (induction results arbitrary: index n sent)
  case Nil
  then show ?case by simp
next
  case (Cons r results)
  from Cons.prems show ?case
    by (auto simp: Let_def uploads_for_def split: if_splits sum.splits option.splits dest!: Cons.IH)
qed

lemma process_results_prefix:
  "process_results s3_send B ts index n results sent = (res, sent') \<Longrightarrow>
   \<exists>rest. sent @ concat (map (\<lambda>r. uploads_for B ts (body r)) (takeWhile (\<lambda>r. statusCode r = 200) results)) = sent' @ rest"
proof (induction results arbitrary: index n sent)
  case Nil
  then show ?case by simp
next
  case (Cons r results)
  from Cons.prems show ?case
    by (auto simp: Let_def uploads_for_def split: if_splits sum.splits option.splits dest!: Cons.IH)
qed

lemma process_results_failure:
  "\<exists>r \<in> set results. statusCode r \<noteq> 200 \<Longrightarrow>
   \<exists>e. fst (process_results s3_send B ts index n results sent) = Inl e"
proof (induction results arbitrary: index n sent)
  case Nil
  then show ?case by simp
next
  case (Cons r results)
  show ?case
  proof (cases "statusCode r = 200")
    case True
    with Cons.prems have "\<exists>r \<in> set results. statusCode r \<noteq> 200"
      by auto
    from Cons.IH[OF this] True show ?thesis
      by (auto simp: Let_def split: sum.splits option.splits)
  next
    case False
    then show ?thesis by simp
  qed
qed

lemma process_results_persisted:
  "\<forall>log c. s3_send log c = None \<Longrightarrow>
   \<forall>r \<in> set (takeWhile (\<lambda>r. statusCode r = 200) results).
      \<not> nullish (connectorParams (body r)) \<and> (\<exists>csv. convertToCSV (body r) = Inr csv) \<Longrightarrow>
   snd (process_results s3_send B ts index n results sent) =
     sent @ concat (map (\<lambda>r. uploads_for B ts (body r)) (takeWhile (\<lambda>r. statusCode r = 200) results))"
proof (induction results arbitrary: index n sent)
  case Nil
  then show ?case by simp
next
  case (Cons r results)
  show ?case
  proof (cases "statusCode r = 200")
    case True
    with Cons.prems(2) obtain csv where "\<not> nullish (connectorParams (body r))" "convertToCSV (body r) = Inr csv"
      by auto
    moreover from Cons.prems(2) True
    have "\<forall>r \<in> set (takeWhile (\<lambda>r. statusCode r = 200) results).
            \<not> nullish (connectorParams (body r)) \<and> (\<exists>csv. convertToCSV (body r) = Inr csv)"
      by simp
    ultimately show ?thesis
      using True Cons.prems(1) Cons.IH[OF Cons.prems(1)]
      by (simp add: Let_def member_def uploads_for_def)
  next
    case False
    then show ?thesis by simp
  qed
qed

section \<open>prepareDataToFiles: the properties\<close>

text \<open>
  C1, as it holds. When an entry of the batch has a status code other than 200, the
  handler answers 500, and whatever it has uploaded is an initial part of the uploads
  for the entries before the first such entry: nothing of that entry or of a later one
  is uploaded. The earlier entries are not held back: when no upload fails and each of
  them can be processed, all their objects have been uploaded.
\<close>

theorem prepareDataToFiles_non200:
  assumes "\<exists>result \<in> set (batchResults event). statusCode result \<noteq> 200"
  shows "statusCode (fst (prepareDataToFiles s3_send B startTime later event)) = 500 \<and>
         (\<exists>rest. concat (map (\<lambda>r. uploads_for B (toISOString startTime) (body r))
                      (takeWhile (\<lambda>r. statusCode r = 200) (batchResults event))) =
                  snd (prepareDataToFiles s3_send B startTime later event) @ rest) \<and>
         ((\<forall>log c. s3_send log c = None) \<and>
          (\<forall>r \<in> set (takeWhile (\<lambda>r. statusCode r = 200) (batchResults event)).
             \<not> nullish (connectorParams (body r)) \<and> (\<exists>csv. convertToCSV (body r) = Inr csv)) \<longrightarrow>
          snd (prepareDataToFiles s3_send B startTime later event) =
            concat (map (\<lambda>r. uploads_for B (toISOString startTime) (body r))
              (takeWhile (\<lambda>r. statusCode r = 200) (batchResults event))))"
proof -
  obtain res sent where pr: "process_results s3_send B (toISOString startTime) 0 0 (batchResults event) [] = (res, sent)"
    by (cases "process_results s3_send B (toISOString startTime) 0 0 (batchResults event) []")
  from process_results_failure[OF assms, of s3_send B "toISOString startTime" 0 0 "[]"] pr
  obtain e where e: "res = Inl e"
    by auto
  with pr have h: "prepareDataToFiles s3_send B startTime later event =
      (\<lparr>statusCode = 500, body = Failure ''Failed to process data'' e (toISOString later)\<rparr>, sent)"
    by (simp add: prepareDataToFiles_def)
  from process_results_prefix[OF pr] h
  have "\<exists>rest. concat (map (\<lambda>r. uploads_for B (toISOString startTime) (body r))
                      (takeWhile (\<lambda>r. statusCode r = 200) (batchResults event))) =
                  snd (prepareDataToFiles s3_send B startTime later event) @ rest"
    by simp
  moreover have "snd (prepareDataToFiles s3_send B startTime later event) =
            concat (map (\<lambda>r. uploads_for B (toISOString startTime) (body r))
              (takeWhile (\<lambda>r. statusCode r = 200) (batchResults event)))"
    if "\<forall>log c. s3_send log c = None"
      and "\<forall>r \<in> set (takeWhile (\<lambda>r. statusCode r = 200) (batchResults event)).
             \<not> nullish (connectorParams (body r)) \<and> (\<exists>csv. convertToCSV (body r) = Inr csv)"
    using process_results_persisted[OF that, of B "toISOString startTime" 0 0 "[]"] pr h by simp
  ultimately show ?thesis
    using h by simp
qed

theorem prepareDataToFiles_non200_witness:
  "(\<exists>result \<in> set (batchResults \<lparr>batchResults =
        [\<lparr>statusCode = 500,
          body = \<lparr>orgId = ''155'', connectorParams = Obj [(''exchange_id'', Str ''3'')],
                  radarData = Obj [(''success'', Bool True)], timestamp = ''2024-03-20T10:30:00Z''\<rparr>\<rparr>]\<rparr>).
      statusCode result \<noteq> 200) \<and>
   statusCode (fst (prepareDataToFiles (\<lambda>log c. None) ''bucket''
      \<lparr>getTime = 0, toISOString = ''2024-03-21T00:00:00Z''\<rparr>
      \<lparr>getTime = 5, toISOString = ''2024-03-21T00:00:05Z''\<rparr>
      \<lparr>batchResults =
        [\<lparr>statusCode = 500,
          body = \<lparr>orgId = ''155'', connectorParams = Obj [(''exchange_id'', Str ''3'')],
                  radarData = Obj [(''success'', Bool True)], timestamp = ''2024-03-20T10:30:00Z''\<rparr>\<rparr>]\<rparr>)) = 500"
  using prepareDataToFiles_non200[of "\<lparr>batchResults =
        [\<lparr>statusCode = 500,
          body = \<lparr>orgId = ''155'', connectorParams = Obj [(''exchange_id'', Str ''3'')],
                  radarData = Obj [(''success'', Bool True)], timestamp = ''2024-03-20T10:30:00Z''\<rparr>\<rparr>]\<rparr>"
      "\<lambda>log c. None" "''bucket''" "\<lparr>getTime = 0, toISOString = ''2024-03-21T00:00:00Z''\<rparr>"
      "\<lparr>getTime = 5, toISOString = ''2024-03-21T00:00:05Z''\<rparr>"]
  by simp

text \<open>
  C1, as it is stated, fails: with a batch of a good entry followed by an entry of status
  500, the handler answers 500 and the two objects of the first entry are in the store.
\<close>

theorem prepareDataToFiles_non200_counterexample:
  "prepareDataToFiles (\<lambda>log c. None) ''bucket''
      \<lparr>getTime = 0, toISOString = ''2024-03-21T00:00:00Z''\<rparr>
      \<lparr>getTime = 5, toISOString = ''2024-03-21T00:00:05Z''\<rparr>
      \<lparr>batchResults =
        [\<lparr>statusCode = 200,
          body = \<lparr>orgId = ''155'', connectorParams = Obj [(''exchange_id'', Str ''3'')],
                  radarData = Obj [(''success'', Bool True)], timestamp = ''2024-03-20T10:30:00Z''\<rparr>\<rparr>,
         \<lparr>statusCode = 500,
          body = \<lparr>orgId = ''148'', connectorParams = Obj [(''exchange_id'', Str ''3'')],
                  radarData = Obj [(''success'', Bool False)], timestamp = ''2024-03-20T10:30:01Z''\<rparr>\<rparr>]\<rparr> =
   (\<lparr>statusCode = 500,
     body = Failure ''Failed to process data'' (Error ''Invalid status code 500 for record 2'')
              ''2024-03-21T00:00:05Z''\<rparr>,
    [\<lparr>Bucket = ''bucket'', Key = ''155/2024-03-21T00:00:00Z/data.json'',
      Body = JSON_stringify
               \<lparr>orgId = ''155'', connectorParams = Obj [(''exchange_id'', Str ''3'')],
                radarData = Obj [(''success'', Bool True)], timestamp = ''2024-03-20T10:30:00Z''\<rparr>,
      ContentType = ''application/json''\<rparr>,
     \<lparr>Bucket = ''bucket'', Key = ''155/2024-03-21T00:00:00Z/data.csv'',
      Body = Text (''success'' @ [CHR 0x0A] @ ''true''), ContentType = ''text/csv''\<rparr>])"
  by code_simp

text \<open>
  C9, as it holds. When the handler answers 200, the uploads are, for every entry of the
  batch in order, exactly two: the record as JSON at \<open>{orgId}/{start}/data.json\<close> and
  its CSV text at \<open>{orgId}/{start}/data.csv\<close>, where \<open>start\<close> is the time at which
  the handler was entered, the same for every entry.
\<close>

theorem prepareDataToFiles_uploads:
  assumes "statusCode (fst (prepareDataToFiles s3_send B startTime later event)) = 200"
  shows "snd (prepareDataToFiles s3_send B startTime later event) =
           concat (map (\<lambda>r. uploads_for B (toISOString startTime) (body r)) (batchResults event)) \<and>
         map Key (snd (prepareDataToFiles s3_send B startTime later event)) =
           concat (map (\<lambda>r. [orgId (body r) @ ''/'' @ toISOString startTime @ ''/data.json'',
                              orgId (body r) @ ''/'' @ toISOString startTime @ ''/data.csv''])
                    (batchResults event)) \<and>
         (\<forall>r \<in> set (batchResults event). \<exists>csv. convertToCSV (body r) = Inr csv)"
proof -
  obtain res sent where pr: "process_results s3_send B (toISOString startTime) 0 0 (batchResults event) [] = (res, sent)"
    by (cases "process_results s3_send B (toISOString startTime) 0 0 (batchResults event) []")
  with assms obtain m where m: "res = Inr m"
    by (cases res) (auto simp: prepareDataToFiles_def)
  with pr have s: "snd (prepareDataToFiles s3_send B startTime later event) = sent"
    by (simp add: prepareDataToFiles_def)
  from process_results_success[OF pr[unfolded m]]
  have "sent = concat (map (\<lambda>r. uploads_for B (toISOString startTime) (body r)) (batchResults event))"
    and "\<forall>r \<in> set (batchResults event). \<exists>csv. convertToCSV (body r) = Inr csv"
    by auto
  moreover from this(1) have "map Key sent =
      concat (map (\<lambda>r. [orgId (body r) @ ''/'' @ toISOString startTime @ ''/data.json'',
                         orgId (body r) @ ''/'' @ toISOString startTime @ ''/data.csv''])
               (batchResults event))"
    by (simp add: map_concat comp_def uploads_for_def)
  ultimately show ?thesis
    using s by simp
qed

theorem prepareDataToFiles_uploads_witness:
  "statusCode (fst (prepareDataToFiles (\<lambda>log c. None) ''bucket''
      \<lparr>getTime = 0, toISOString = ''2024-03-21T00:00:00Z''\<rparr>
      \<lparr>getTime = 5, toISOString = ''2024-03-21T00:00:05Z''\<rparr>
      \<lparr>batchResults =
        [\<lparr>statusCode = 200,
          body = \<lparr>orgId = ''155'', connectorParams = Obj [(''exchange_id'', Str ''3'')],
                  radarData = Obj [(''success'', Bool True)], timestamp = ''2024-03-20T10:30:00Z''\<rparr>\<rparr>]\<rparr>)) = 200 \<and>
   map Key (snd (prepareDataToFiles (\<lambda>log c. None) ''bucket''
      \<lparr>getTime = 0, toISOString = ''2024-03-21T00:00:00Z''\<rparr>
      \<lparr>getTime = 5, toISOString = ''2024-03-21T00:00:05Z''\<rparr>
      \<lparr>batchResults =
        [\<lparr>statusCode = 200,
          body = \<lparr>orgId = ''155'', connectorParams = Obj [(''exchange_id'', Str ''3'')],
                  radarData = Obj [(''success'', Bool True)], timestamp = ''2024-03-20T10:30:00Z''\<rparr>\<rparr>]\<rparr>)) =
     [''155/2024-03-21T00:00:00Z/data.json'', ''155/2024-03-21T00:00:00Z/data.csv'']"
proof -
  let ?event = "\<lparr>batchResults =
        [\<lparr>statusCode = 200,
          body = \<lparr>orgId = ''155'', connectorParams = Obj [(''exchange_id'', Str ''3'')],
                  radarData = Obj [(''success'', Bool True)], timestamp = ''2024-03-20T10:30:00Z''\<rparr>\<rparr>]\<rparr>"
  have ok: "statusCode (fst (prepareDataToFiles (\<lambda>log c. None) ''bucket''
      \<lparr>getTime = 0, toISOString = ''2024-03-21T00:00:00Z''\<rparr>
      \<lparr>getTime = 5, toISOString = ''2024-03-21T00:00:05Z''\<rparr> ?event)) = 200"
    by code_simp
  from prepareDataToFiles_uploads[OF ok, THEN conjunct2, THEN conjunct1] ok show ?thesis
    by simp
qed

text \<open>
  C9, as it is stated, fails: the record was fetched at \<open>2024-03-20T10:30:00Z\<close> and
  the handler entered at \<open>2024-03-21T00:00:00Z\<close>; the handler answers 200 and the keys
  carry the handler's time, not the record's.
\<close>

theorem prepareDataToFiles_uploads_counterexample:
  "statusCode (fst (prepareDataToFiles (\<lambda>log c. None) ''bucket''
      \<lparr>getTime = 0, toISOString = ''2024-03-21T00:00:00Z''\<rparr>
      \<lparr>getTime = 5, toISOString = ''2024-03-21T00:00:05Z''\<rparr>
      \<lparr>batchResults =
        [\<lparr>statusCode = 200,
          body = \<lparr>orgId = ''155'', connectorParams = Obj [(''exchange_id'', Str ''3'')],
                  radarData = Obj [(''success'', Bool True)], timestamp = ''2024-03-20T10:30:00Z''\<rparr>\<rparr>]\<rparr>)) = 200 \<and>
   ''155/2024-03-20T10:30:00Z/data.json'' \<notin>
     set (map Key (snd (prepareDataToFiles (\<lambda>log c. None) ''bucket''
      \<lparr>getTime = 0, toISOString = ''2024-03-21T00:00:00Z''\<rparr>
      \<lparr>getTime = 5, toISOString = ''2024-03-21T00:00:05Z''\<rparr>
      \<lparr>batchResults =
        [\<lparr>statusCode = 200,
          body = \<lparr>orgId = ''155'', connectorParams = Obj [(''exchange_id'', Str ''3'')],
                  radarData = Obj [(''success'', Bool True)], timestamp = ''2024-03-20T10:30:00Z''\<rparr>\<rparr>]\<rparr>))) \<and>
   ''155/2024-03-20T10:30:00Z/data.csv'' \<notin>
     set (map Key (snd (prepareDataToFiles (\<lambda>log c. None) ''bucket''
      \<lparr>getTime = 0, toISOString = ''2024-03-21T00:00:00Z''\<rparr>
      \<lparr>getTime = 5, toISOString = ''2024-03-21T00:00:05Z''\<rparr>
      \<lparr>batchResults =
        [\<lparr>statusCode = 200,
          body = \<lparr>orgId = ''155'', connectorParams = Obj [(''exchange_id'', Str ''3'')],
                  radarData = Obj [(''success'', Bool True)], timestamp = ''2024-03-20T10:30:00Z''\<rparr>\<rparr>]\<rparr>)))"
  by code_simp

section \<open>The flattening to CSV: the properties\<close>

text \<open>
  C3, as it holds. When the payload is an object without arrays, in which no key is
  empty or contains a dot or a comma, and no leaf's text contains a comma, then the
  header line and the data line have the same number of comma-separated fields and every
  leaf's text stands in the data line at a position where the header line has the
  leaf's dot-joined path.
\<close>

theorem convertToCSV_fields:
  assumes root: "is_object (radarData d)"
    and af: "array_free (radarData d)"
    and pk: "plain_keys (radarData d)"
    and nc: "\<forall>pv \<in> set (leaves (radarData d)). CHR '','' \<notin> set (leaf_text (snd pv))"
  shows "fields_agree d"
proof -
  define obj where "obj = radarData d"
  define cell where "cell = (\<lambda>h. leaf_text (getValue obj h))"
  have hs: "set (headers d) = (\<lambda>pv. join_strs ''.'' (fst pv)) ` set (leaves obj)"
    using assms by (simp add: headers_set obj_def)
  have "\<forall>x \<in> set (row d). \<not> is_object x"
    using hs leaf_text_getValue(2)[of obj] root af pk by (auto simp: row_def obj_def)
  then have dl: "data_line d = Inr (join_strs '','' (map cell (headers d)))"
    by (simp add: data_line_def array_join_leaves row_def cell_def obj_def comp_def)
  show ?thesis
  proof (cases "headers d = []")
    case True
    with hs have "leaves obj = []"
      by simp
    with True dl convertToCSV_lines[OF dl] show ?thesis
      by (simp add: fields_agree_def header_line_def obj_def)
  next
    case False
    have "\<forall>h \<in> set (headers d). CHR '','' \<notin> set h"
      using hs column_no_comma[of obj] af pk by (auto simp: obj_def)
    with False have sh: "split_on (CHR '','') (header_line d) = headers d"
      unfolding header_line_def by (intro split_on_join) auto
    have "\<forall>c \<in> set (map cell (headers d)). CHR '','' \<notin> set c"
      using hs nc leaf_text_getValue(1)[of obj] root af pk by (auto simp: cell_def obj_def)
    with False have sd: "split_on (CHR '','') (join_strs '','' (map cell (headers d))) = map cell (headers d)"
      by (intro split_on_join) auto
    have "(join_strs ''.'' (fst pv), leaf_text (snd pv)) \<in> set (zip (headers d) (map cell (headers d)))"
      if "pv \<in> set (leaves obj)" for pv
    proof -
      from that hs have "join_strs ''.'' (fst pv) \<in> set (headers d)"
        by auto
      moreover from that have "cell (join_strs ''.'' (fst pv)) = leaf_text (snd pv)"
        using leaf_text_getValue(1)[of obj pv] root af pk by (simp add: cell_def obj_def)
      ultimately show ?thesis
        by (auto simp: zip_map_self)
    qed
    with dl sh sd convertToCSV_lines[OF dl] show ?thesis
      by (simp add: fields_agree_def obj_def)
  qed
qed

theorem convertToCSV_fields_witness:
  "fields_agree \<lparr>orgId = ''155'', connectorParams = Obj [(''exchange_id'', Str ''3'')],
      radarData = Obj [(''result'', Obj [(''rank'', Num 1), (''name'', Str ''US''), (''note'', Null)]),
                       (''success'', Bool True)],
      timestamp = ''2024-03-20T10:30:00Z''\<rparr>"
  by (rule convertToCSV_fields; code_simp)

text \<open>
  C3, as it is stated, fails: a key with a dot is split into two path steps when the
  value is read back, so the leaf is lost; a key with a comma adds a header field; a value
  with a comma adds a data field; an empty key at the root drops a path step; a payload
  that is a bare number has a leaf and no field for it.
\<close>

theorem convertToCSV_fields_counterexample:
  "\<not> fields_agree \<lparr>orgId = ''155'', connectorParams = Obj [], radarData = Obj [(''a.b'', Num 1)],
                     timestamp = ''t''\<rparr> \<and>
   \<not> fields_agree \<lparr>orgId = ''155'', connectorParams = Obj [], radarData = Obj [(''a,b'', Num 1)],
                     timestamp = ''t''\<rparr> \<and>
   \<not> fields_agree \<lparr>orgId = ''155'', connectorParams = Obj [], radarData = Obj [(''a'', Str ''x,y'')],
                     timestamp = ''t''\<rparr> \<and>
   \<not> fields_agree \<lparr>orgId = ''155'', connectorParams = Obj [],
                     radarData = Obj [([], Obj [(''b'', Num 1)])], timestamp = ''t''\<rparr> \<and>
   \<not> fields_agree \<lparr>orgId = ''155'', connectorParams = Obj [], radarData = Num 5,
                     timestamp = ''t''\<rparr>"
  by code_simp

text \<open>
  C4. Flattening the payload \<open>{"a": {"b": 1, "c": 2}, "d": 3}\<close> gives the header line
  \<open>a.b,a.c,d\<close> and the data line \<open>1,2,3\<close>; the CSV text is the two lines joined by a
  newline.
\<close>

theorem flatten_example:
  "header_line \<lparr>orgId = oid, connectorParams = cp,
      radarData = Obj [(''a'', Obj [(''b'', Num 1), (''c'', Num 2)]), (''d'', Num 3)],
      timestamp = ts\<rparr> = ''a.b,a.c,d'' \<and>
   data_line \<lparr>orgId = oid, connectorParams = cp,
      radarData = Obj [(''a'', Obj [(''b'', Num 1), (''c'', Num 2)]), (''d'', Num 3)],
      timestamp = ts\<rparr> = Inr ''1,2,3'' \<and>
   convertToCSV \<lparr>orgId = oid, connectorParams = cp,
      radarData = Obj [(''a'', Obj [(''b'', Num 1), (''c'', Num 2)]), (''d'', Num 3)],
      timestamp = ts\<rparr> = Inr (''a.b,a.c,d'' @ [CHR 0x0A] @ ''1,2,3'')"
  by code_simp

section \<open>extractOrgs: the properties\<close>

text \<open>
  C2. When the body of the event has a list \<open>orgs\<close> of N entities (values other than
  \<open>null\<close> whose \<open>orgId\<close> is a string), the handler answers 200 with a list
  \<open>orgIds\<close> of N elements in the same order, the \<open>id\<close> of the i-th being the
  \<open>orgId\<close> of the i-th entity and its \<open>connectorParams\<close> the entity's, unchanged.
\<close>

theorem extractOrgs_entities:
  assumes "getProp (getProp event ''body'') ''orgs'' = Arr orgs"
    and "\<forall>org \<in> set orgs. \<not> nullish org \<and> (\<exists>s. getProp org ''orgId'' = Str s)"
  shows "\<exists>extracted.
           extractOrgs now event = \<lparr>statusCode = 200, body = Success (Obj [(''orgIds'', Arr extracted)])\<rparr> \<and>
           length extracted = length orgs \<and>
           (\<forall>i < length orgs.
              getProp (extracted ! i) ''id'' = getProp (orgs ! i) ''orgId'' \<and>
              getProp (extracted ! i) ''connectorParams'' = getProp (orgs ! i) ''connectorParams'')"
proof -
  have "extractOrgs now event = \<lparr>statusCode = 200, body = Success (Obj [(''orgIds'', Arr (map projected orgs))])\<rparr>"
    using extractOrgs_try_entities[OF assms] by (simp add: extractOrgs_def)
  moreover have "length (map projected orgs) = length orgs"
    by simp
  moreover have "\<forall>i < length orgs.
      getProp (map projected orgs ! i) ''id'' = getProp (orgs ! i) ''orgId'' \<and>
      getProp (map projected orgs ! i) ''connectorParams'' = getProp (orgs ! i) ''connectorParams''"
    by (simp add: projected_def getProp_def)
  ultimately show ?thesis
    by blast
qed

theorem extractOrgs_entities_witness:
  "\<exists>extracted.
     extractOrgs ''2024-03-20T10:30:00Z'' (Obj [(''statusCode'', Num 200), (''body'', provider_response)]) =
       \<lparr>statusCode = 200, body = Success (Obj [(''orgIds'', Arr extracted)])\<rparr> \<and>
     length extracted = 2 \<and>
     getProp (extracted ! 0) ''id'' = Str ''155'' \<and>
     getProp (extracted ! 1) ''id'' = Str ''148''"
proof -
  let ?o1 = "Obj [(''orgId'', Str ''155''),
                  (''connectorParams'',
                     Obj [(''exchange_id'', Str ''3''),
                          (''ticker_symbol'', Str ''AMZN''),
                          (''ticker_symbols'', Str ''MSFT-458, NFLX-458, GOOGL-458''),
                          (''key_development_list'', Str ''28,74,75,101,52,80,81,82,94,26,27'')])]"
  let ?o2 = "Obj [(''orgId'', Str ''148''),
                  (''connectorParams'',
                     Obj [(''exchange_id'', Str ''3''),
                          (''ticker_symbol'', Str ''MSFT''),
                          (''ticker_symbols'', Str ''AMZN-458, NFLX-458, GOOGL-458''),
                          (''key_development_list'', Str ''28,74,75,101,52,80,81,82,94,26,27'')])]"
  let ?event = "Obj [(''statusCode'', Num 200), (''body'', provider_response)]"
  have h1: "getProp (getProp ?event ''body'') ''orgs'' = Arr [?o1, ?o2]"
    by (simp add: getProp_def provider_response_def)
  have h2: "\<forall>org \<in> set [?o1, ?o2]. \<not> nullish org \<and> (\<exists>s. getProp org ''orgId'' = Str s)"
    by (simp add: getProp_def nullish_def)
  from extractOrgs_entities[OF h1 h2, of "''2024-03-20T10:30:00Z''"]
  obtain extracted where e:
    "extractOrgs ''2024-03-20T10:30:00Z'' ?event = \<lparr>statusCode = 200, body = Success (Obj [(''orgIds'', Arr extracted)])\<rparr>"
    "length extracted = length [?o1, ?o2]"
    "\<forall>i < length [?o1, ?o2].
       getProp (extracted ! i) ''id'' = getProp ([?o1, ?o2] ! i) ''orgId'' \<and>
       getProp (extracted ! i) ''connectorParams'' = getProp ([?o1, ?o2] ! i) ''connectorParams''"
    by blast
  from e(3) have "getProp (extracted ! 0) ''id'' = Str ''155''" and "getProp (extracted ! 1) ''id'' = Str ''148''"
    by (simp_all add: getProp_def)
  with e(1,2) show ?thesis
    by auto
qed

text \<open>
  C8. When \<open>orgs\<close> is absent from the body of the event, or is anything but a list,
  the handler does not succeed: it answers 500 with the error
  \<open>Failed to extract organization data\<close>, caused by the TypeError of reading the
  malformed record.
\<close>

theorem extractOrgs_malformed:
  assumes "\<forall>orgs. getProp (getProp event ''body'') ''orgs'' \<noteq> Arr orgs"
  shows "extractOrgs now event =
           \<lparr>statusCode = 500, body = Failure ''Failed to extract organization data'' TypeError now\<rparr>"
proof -
  have "extractOrgs_try event = Inl TypeError"
    using assms by (auto simp: extractOrgs_try_def member_def split: jsvalue.splits)
  then show ?thesis
    by (simp add: extractOrgs_def)
qed

theorem extractOrgs_malformed_witness:
  "(\<forall>orgs. getProp (getProp (Obj [(''statusCode'', Num 200), (''body'', Obj [(''providerId'', Str ''provider-1''), (''orgs'', Str ''155'')])]) ''body'') ''orgs'' \<noteq> Arr orgs) \<and>
   extractOrgs ''2024-03-20T10:30:00Z''
     (Obj [(''statusCode'', Num 200), (''body'', Obj [(''providerId'', Str ''provider-1''), (''orgs'', Str ''155'')])]) =
     \<lparr>statusCode = 500,
      body = Failure ''Failed to extract organization data'' TypeError ''2024-03-20T10:30:00Z''\<rparr>"
  using extractOrgs_malformed[of "Obj [(''statusCode'', Num 200), (''body'', Obj [(''providerId'', Str ''provider-1''), (''orgs'', Str ''155'')])]" "''2024-03-20T10:30:00Z''"]
  by (simp add: getProp_def)

section \<open>decryptionHandler: the properties\<close>

text \<open>
  C6. When the body of the event is a provider record (an object whose \<open>orgs\<close> is
  there), the handler answers 200 with the same object in which \<open>secrets\<close> is the
  decrypted text: every other field reads as in the input.
\<close>

theorem decryptionHandler_frame:
  assumes "getProp event ''body'' = Obj props" and "\<not> nullish (getProp (Obj props) ''orgs'')"
  shows "\<exists>out.
           decryptionHandler now event = \<lparr>statusCode = 200, body = Success (Obj out)\<rparr> \<and>
           out = set_prop ''secrets'' (Str ''decrypted-secret-data'') props \<and>
           getProp (Obj out) ''secrets'' = Str ''decrypted-secret-data'' \<and>
           (\<forall>key. key \<noteq> ''secrets'' \<longrightarrow> getProp (Obj out) key = getProp (Obj props) key)"
  using decryptionHandler_try_Obj[OF assms]
  by (simp add: decryptionHandler_def getProp_set_prop)

theorem decryptionHandler_frame_witness:
  "body (decryptionHandler ''2024-03-20T10:30:00Z'' (Obj [(''statusCode'', Num 200), (''body'', provider_response)])) =
     Success (Obj (set_prop ''secrets'' (Str ''decrypted-secret-data'') (own_props provider_response))) \<and>
   getProp (Obj (set_prop ''secrets'' (Str ''decrypted-secret-data'') (own_props provider_response))) ''providerId'' =
     Str ''provider-1''"
proof -
  let ?event = "Obj [(''statusCode'', Num 200), (''body'', provider_response)]"
  have h1: "getProp ?event ''body'' = Obj (own_props provider_response)"
    by (simp add: getProp_def provider_response_def)
  have h2: "\<not> nullish (getProp (Obj (own_props provider_response)) ''orgs'')"
    by (simp add: getProp_def provider_response_def nullish_def)
  from decryptionHandler_frame[OF h1 h2, of "''2024-03-20T10:30:00Z''"] show ?thesis
    by (auto simp: getProp_def provider_response_def)
qed

text \<open>
  C10. Two events that differ only in the \<open>secrets\<close> of the provider record get the
  same answer; and the \<open>secrets\<close> of a successful answer is the fixed text
  \<open>decrypted-secret-data\<close>.
\<close>

theorem decryptionHandler_secret_independent:
  "decryptionHandler now (Obj (set_prop ''body'' (Obj (set_prop ''secrets'' secret1 props)) ev)) =
   decryptionHandler now (Obj (set_prop ''body'' (Obj (set_prop ''secrets'' secret2 props)) ev)) \<and>
   (\<forall>out. body (decryptionHandler now (Obj (set_prop ''body'' (Obj (set_prop ''secrets'' secret1 props)) ev))) = Success out
      \<longrightarrow> getProp out ''secrets'' = Str ''decrypted-secret-data'')"
  by (simp add: decryptionHandler_def decryptionHandler_try_def member_def nullish_def
        getProp_set_prop set_prop_set_prop split: sum.splits)

theorem decryptionHandler_secret_independent_witness:
  "decryptionHandler ''2024-03-20T10:30:00Z''
      (Obj (set_prop ''body''
         (Obj (set_prop ''secrets'' (Str ''****'') [(''providerId'', Str ''provider-1''), (''orgs'', Arr [])])) [])) =
   decryptionHandler ''2024-03-20T10:30:00Z''
      (Obj (set_prop ''body''
         (Obj (set_prop ''secrets'' (Str ''hunter2'') [(''providerId'', Str ''provider-1''), (''orgs'', Arr [])])) [])) \<and>
   body (decryptionHandler ''2024-03-20T10:30:00Z''
      (Obj (set_prop ''body''
         (Obj (set_prop ''secrets'' (Str ''****'') [(''providerId'', Str ''provider-1''), (''orgs'', Arr [])])) []))) =
     Success (Obj [(''providerId'', Str ''provider-1''), (''orgs'', Arr []),
                   (''secrets'', Str ''decrypted-secret-data'')]) \<and>
   getProp (Obj [(''providerId'', Str ''provider-1''), (''orgs'', Arr []),
                 (''secrets'', Str ''decrypted-secret-data'')]) ''secrets'' =
     Str ''decrypted-secret-data''"
proof -
  have "body (decryptionHandler ''2024-03-20T10:30:00Z''
      (Obj (set_prop ''body''
         (Obj (set_prop ''secrets'' (Str ''****'') [(''providerId'', Str ''provider-1''), (''orgs'', Arr [])])) []))) =
     Success (Obj [(''providerId'', Str ''provider-1''), (''orgs'', Arr []),
                   (''secrets'', Str ''decrypted-secret-data'')])"
    by code_simp
  with decryptionHandler_secret_independent[of "''2024-03-20T10:30:00Z''" "Str ''****''"
      "[(''providerId'', Str ''provider-1''), (''orgs'', Arr [])]" "[]" "Str ''hunter2''"]
  show ?thesis
    by simp
qed

section \<open>cloudflareFetchHandler: the properties\<close>

text \<open>
  C7, as it holds. For an event with \<open>connectorParams\<close>, the handler answers 500 with
  the error \<open>Failed to fetch Cloudflare data\<close> when the request fails (message
  \<open>Request failed: ...\<close>) and when the body of the response does not parse (message
  \<open>Failed to parse response: ...\<close>); when the body parses it answers 200 with
  \<open>orgId\<close>, \<open>connectorParams\<close>, the parsed body as \<open>radarData\<close> and the
  timestamp, whatever the status code of the response.
\<close>

theorem cloudflareFetchHandler_outcomes:
  assumes "\<not> nullish event" and "\<not> nullish (getProp event ''connectorParams'')"
  shows "cloudflareFetchHandler https_request JSON_parse now event =
     (case https_request ''/client/v4/radar/attacks/layer3/top/locations/target?dateRange=30d&format=json'' of
        RequestError msg \<Rightarrow>
          \<lparr>statusCode = 500,
           body = Failure ''Failed to fetch Cloudflare data'' (Error (''Request failed: '' @ msg)) now\<rparr>
      | Responded code chunks \<Rightarrow>
          (case JSON_parse (concat chunks) of
             Inl msg \<Rightarrow>
               \<lparr>statusCode = 500,
                body = Failure ''Failed to fetch Cloudflare data''
                         (Error (''Failed to parse response: '' @ msg)) now\<rparr>
           | Inr payload \<Rightarrow>
               if payload = Undefined
               then \<lparr>statusCode = 500, body = Failure ''Failed to fetch Cloudflare data'' TypeError now\<rparr>
               else \<lparr>statusCode = 200,
                     body = Success (Obj [(''orgId'', getProp event ''id''),
                                          (''connectorParams'', getProp event ''connectorParams''),
                                          (''radarData'', payload),
                                          (''timestamp'', Str now)])\<rparr>))"
  using assms
  by (simp add: cloudflareFetchHandler_def cloudflareFetchHandler_try_def makeCloudflareRequest_def
        member_def Let_def split: http_outcome.splits sum.splits)

theorem cloudflareFetchHandler_outcomes_witness:
  "\<not> nullish (Obj [(''id'', Str ''155''), (''connectorParams'', Obj [(''exchange_id'', Str ''3'')])]) \<and>
   cloudflareFetchHandler (\<lambda>path. RequestError ''ECONNRESET'') (\<lambda>text. Inl ''Unexpected end of JSON input'')
     ''2024-03-20T10:30:00Z'' (Obj [(''id'', Str ''155''), (''connectorParams'', Obj [(''exchange_id'', Str ''3'')])]) =
     \<lparr>statusCode = 500,
      body = Failure ''Failed to fetch Cloudflare data'' (Error ''Request failed: ECONNRESET'') ''2024-03-20T10:30:00Z''\<rparr>"
  using cloudflareFetchHandler_outcomes[of "Obj [(''id'', Str ''155''), (''connectorParams'', Obj [(''exchange_id'', Str ''3'')])]"
      "\<lambda>path. RequestError ''ECONNRESET''" "\<lambda>text. Inl ''Unexpected end of JSON input''" "''2024-03-20T10:30:00Z''"]
  by (simp add: nullish_def getProp_def)

text \<open>
  C7, as it is stated, fails: a response with status 403 and a body that parses gives the
  answer 200, with the body as \<open>radarData\<close>.
\<close>

theorem cloudflareFetchHandler_non2xx_counterexample:
  "cloudflareFetchHandler (\<lambda>path. Responded (Some 403) [''{'', ''}''])
     (\<lambda>text. if text = ''{}'' then Inr (Obj []) else Inl ''Unexpected end of JSON input'')
     ''2024-03-20T10:30:00Z'' (Obj [(''id'', Str ''155''), (''connectorParams'', Obj [(''exchange_id'', Str ''3'')])]) =
   \<lparr>statusCode = 200,
    body = Success (Obj [(''orgId'', Str ''155''),
                         (''connectorParams'', Obj [(''exchange_id'', Str ''3'')]),
                         (''radarData'', Obj []),
                         (''timestamp'', Str ''2024-03-20T10:30:00Z'')])\<rparr>"
  by code_simp

end
